theory Spec2Isabelle
  imports Complex_Main "HOL-Library.Sublist"
begin

section \<open>Data model (types.ts)\<close>

text \<open>
  A JavaScript \<open>number\<close> is an IEEE-754 double. The model keeps its finite values, as
  reals; NaN, the infinities and the sign of zero are not modelled. The arithmetic of the
  random walk and of the add-contact handler is rounded as the code's is: each operation is
  the exact operation followed by \<open>double\<close>, defined below. The radar projection and the
  distance utility are written with the exact operations: they go through
  \<open>Math.atan2\<close>, \<open>Math.cos\<close> and \<open>Math.sin\<close>, whose results are approximations
  left to the engine.
  A \<open>Date\<close> is its time value, the integer number of milliseconds since the epoch.
  A string is a list of 8-bit characters, read as the code points U+0000 to U+00FF.
  The field \<open>id\<close> of the source is called \<open>contact_id\<close>, since \<open>id\<close> is
  the identity function of HOL.
\<close>

type_synonym Date = int

record Coordinates =
  latitude :: real
  longitude :: real

record Contact =
  contact_id :: string
  name :: string
  phoneNumber :: string
  avatarUrl :: string
  location :: Coordinates
  isRegistered :: bool
  lastSeen :: Date

record NearbyContact = Contact +
  distanceKm :: real

section \<open>Double arithmetic\<close>

text \<open>
  \<open>double v\<close> is the double nearest to \<open>v\<close>, ties to the even significand: \<open>v\<close> is
  rounded to an integer multiple of the spacing \<open>2 ^ (e - 52)\<close> of the doubles in its
  binade \<open>2 ^ e \<le> |v| < 2 ^ (e + 1)\<close>. The exponent is not bounded: overflow and
  subnormal numbers are not modelled. A decimal literal of the source denotes the double
  nearest to it, and \<open>+\<close>, \<open>-\<close> and \<open>*\<close> on doubles return the double nearest to the
  exact result.
\<close>

definition roundHalfEven :: "real \<Rightarrow> int" where
  "roundHalfEven y =
     (let f = \<lfloor>y\<rfloor>
      in if y - of_int f < 1 / 2 then f
         else if 1 / 2 < y - of_int f then f + 1
         else if even f then f else f + 1)"

definition double :: "real \<Rightarrow> real" where
  "double v =
     (if v = 0 then 0
      else
        let ulp = 2 powr (of_int \<lfloor>log 2 \<bar>v\<bar>\<rfloor> - 52)
        in of_int (roundHalfEven (v / ulp)) * ulp)"

section \<open>Constants (constants.ts)\<close>

definition MOCK_USER_START_LOCATION :: Coordinates where
  "MOCK_USER_START_LOCATION =
     \<lparr>latitude = double 40.7128, longitude = double (- 74.0060)\<rparr>"

text \<open>
  \<open>INITIAL_CONTACTS\<close> reads the clock once, when the module is loaded
  (\<open>lastSeen: new Date()\<close>); that reading is the parameter.
\<close>

definition INITIAL_CONTACTS :: "Date \<Rightarrow> Contact list" where
  "INITIAL_CONTACTS loadTime =
     [\<lparr>contact_id = ''1'',
       name = ''Yacob'',
       phoneNumber = ''9943926886'',
       avatarUrl = ''https://ui-avatars.com/api/?name=Yacob&background=random'',
       location = \<lparr>latitude = double 40.7145, longitude = double (- 74.0075)\<rparr>,
       isRegistered = True,
       lastSeen = loadTime\<rparr>]"

definition RADAR_RADIUS_KM :: real where
  "RADAR_RADIUS_KM = 5"

section \<open>The random walk (moveContacts)\<close>

text \<open>
  \<open>Math.random()\<close> is a read of an external source. A generator is the infinite
  sequence of the draws still to come; a call returns the first and leaves the rest.
  Every outcome of the randomness is a choice of the generator.
\<close>

type_synonym rng = "nat \<Rightarrow> real"

definition Math_random :: "rng \<Rightarrow> real \<times> rng" where
  "Math_random g = (g 0, \<lambda>n. g (Suc n))"

text \<open>
  The callback of \<open>contacts.map\<close> in \<open>moveContacts\<close>, for one contact. The literal
  \<open>0.5\<close> is a double; \<open>0.0005\<close> is not, and stands for the double nearest to it.
\<close>

definition moveContact :: "Contact \<Rightarrow> rng \<Rightarrow> Contact \<times> rng" where
  "moveContact c g =
     (if \<not> isRegistered c then (c, g)
      else
        let (r1, g1) = Math_random g;
            latMove = double (double (r1 - 0.5) * double 0.0005);
            (r2, g2) = Math_random g1;
            lonMove = double (double (r2 - 0.5) * double 0.0005)
        in (c\<lparr>location :=
                 \<lparr>latitude = double (latitude (location c) + latMove),
                  longitude = double (longitude (location c) + lonMove)\<rparr>\<rparr>,
            g2))"

text \<open>\<open>contacts.map\<close> calls the callback on the elements from left to right.\<close>

fun moveContacts :: "Contact list \<Rightarrow> rng \<Rightarrow> Contact list \<times> rng" where
  "moveContacts [] g = ([], g)"
| "moveContacts (c # cs) g =
     (let (c', g') = moveContact c g;
          (cs', g'') = moveContacts cs g'
      in (c' # cs', g''))"

section \<open>One tick of the simulation (the interval callback of App)\<close>

text \<open>
  \<open>calculateDistanceKm\<close> is imported from \<open>services/locationService\<close>, which is
  not among the source files; the tick takes it as the parameter \<open>calc\<close>.
\<close>

type_synonym distance_fn = "Coordinates \<Rightarrow> Coordinates \<Rightarrow> real"

text \<open>The object \<open>{ ...contact, distanceKm: dist }\<close>.\<close>

definition withDistance :: "Contact \<Rightarrow> real \<Rightarrow> NearbyContact" where
  "withDistance contact distKm = Contact.extend contact (NearbyContact.fields distKm)"

text \<open>
  The callback of \<open>moved.forEach\<close>; \<open>nearby\<close> is the array built so far and
  \<open>push\<close> appends at its end.
\<close>

definition checkDistance ::
  "distance_fn \<Rightarrow> Coordinates \<Rightarrow> NearbyContact list \<Rightarrow> Contact \<Rightarrow> NearbyContact list" where
  "checkDistance calc userLoc nearby contact =
     (if \<not> isRegistered contact then nearby
      else
        let distKm = calc userLoc (location contact)
        in if distKm \<le> RADAR_RADIUS_KM then nearby @ [withDistance contact distKm]
           else nearby)"

text \<open>
  The updater passed to \<open>setAllContacts\<close>: from the previous collection it returns the
  moved collection (the new \<open>allContacts\<close>) and the array given to
  \<open>setNearbyContacts\<close>.
\<close>

definition simulationTick ::
  "distance_fn \<Rightarrow> Coordinates \<Rightarrow> Contact list \<Rightarrow> rng \<Rightarrow>
     (Contact list \<times> NearbyContact list) \<times> rng" where
  "simulationTick calc userLoc prev g =
     (let (moved, g') = moveContacts prev g;
          nearby = foldl (checkDistance calc userLoc) [] moved
      in ((moved, nearby), g'))"

section \<open>Radar projection (Radar.tsx, step 4 of the drawing effect)\<close>

text \<open>
  \<open>Math.atan2(y, x)\<close> on real arguments: the angle of the point \<open>(x, y)\<close> in
  \<open>(-\<pi>, \<pi>]\<close>, and 0 at the origin.
\<close>

definition Math_atan2 :: "real \<Rightarrow> real \<Rightarrow> real" where
  "Math_atan2 y x =
     (if 0 < x then arctan (y / x)
      else if x < 0 then (if 0 \<le> y then arctan (y / x) + pi else arctan (y / x) - pi)
      else if 0 < y then pi / 2
      else if y < 0 then - (pi / 2)
      else 0)"





section \<open>Built-in string operations used by the add-contact handler\<close>

text \<open>
  \<open>String.prototype.trim\<close> removes white space and line terminators from both ends;
  among the code points up to U+00FF these are TAB, LF, VT, FF, CR, SPACE and NBSP.
\<close>

definition isWhiteSpace :: "char \<Rightarrow> bool" where
  "isWhiteSpace c = (of_char c \<in> {9, 10, 11, 12, 13, 32, 160 :: nat})"

definition trim :: "string \<Rightarrow> string" where
  "trim s = rev (dropWhile isWhiteSpace (rev (dropWhile isWhiteSpace s)))"

text \<open>
  \<open>Number.prototype.toString\<close> on an integer time value: its decimal digits, with a
  minus sign when negative (time values are below \<open>10\<^sup>2\<^sup>1\<close>, where the
  exponent notation would start).
\<close>

fun digits :: "nat \<Rightarrow> string" where
  "digits n =
     (if n < 10 then [''0123456789'' ! n]
      else digits (n div 10) @ [''0123456789'' ! (n mod 10)])"

declare digits.simps [simp del]

definition toString :: "int \<Rightarrow> string" where
  "toString n = (if n < 0 then CHR ''-'' # digits (nat (- n)) else digits (nat n))"

text \<open>
  \<open>encodeURIComponent\<close>: letters, digits and \<open>- _ . ! ~ * ' ( )\<close> are kept, every
  other character is replaced by the escapes \<open>%XX\<close> of its UTF-8 bytes (one byte below
  U+0080, two from U+0080 to U+00FF).
\<close>

definition hexDigit :: "nat \<Rightarrow> char" where
  "hexDigit n = ''0123456789ABCDEF'' ! n"

definition percentEscape :: "nat \<Rightarrow> string" where
  "percentEscape b = [CHR ''%'', hexDigit (b div 16), hexDigit (b mod 16)]"

definition uriUnreserved :: "char \<Rightarrow> bool" where
  "uriUnreserved c =
     (c \<in> set ''ABCDEFGHIJKLMNOPQRSTUVWXYZabcdefghijklmnopqrstuvwxyz0123456789-_.!~*()''
      \<or> of_char c = (39 :: nat))"

definition encodeURIComponent :: "string \<Rightarrow> string" where
  "encodeURIComponent s =
     concat (map (\<lambda>c.
       if uriUnreserved c then [c]
       else
         let n = (of_char c :: nat)
         in if n < 128 then percentEscape n
            else percentEscape (192 + n div 64) @ percentEscape (128 + n mod 64)) s)"

section \<open>Application state and its handlers (App)\<close>

text \<open>
  The state of \<open>App\<close> that the tracking, simulation and add-contact logic reads or
  writes, and the timers of the page:
  \<^item> \<open>timers\<close> maps the handle of every live \<open>setInterval\<close> to the user location that its
    callback captured; \<open>nextTimer\<close> is the handle the next \<open>setInterval\<close> returns;
  \<^item> \<open>interval\<close> is the handle held by the cleanup function of the last run of the
    simulation effect, if that run set an interval;
  \<^item> \<open>simulationRef\<close> is \<open>simulationRef.current\<close>;
  \<^item> \<open>userLocationIsNew\<close> records the identity of the object in \<open>userLocation\<close>: true
    when it is an object created by the geolocation success callback, false when it is
    null or the constant \<open>MOCK_USER_START_LOCATION\<close>. React compares state and effect
    dependencies with \<open>Object.is\<close>.
\<close>

record AppState =
  isTracking :: bool
  userLocation :: "Coordinates option"
  userLocationIsNew :: bool
  allContacts :: "Contact list"
  nearbyContacts :: "NearbyContact list"
  isAddingContact :: bool
  newContactName :: string
  newContactPhone :: string
  simulationRef :: "nat option"
  timers :: "nat \<rightharpoonup> Coordinates"
  nextTimer :: nat
  interval :: "nat option"

definition initialState :: "Date \<Rightarrow> AppState" where
  "initialState loadTime =
     \<lparr>isTracking = False,
      userLocation = None,
      userLocationIsNew = False,
      allContacts = INITIAL_CONTACTS loadTime,
      nearbyContacts = [],
      isAddingContact = False,
      newContactName = [],
      newContactPhone = [],
      simulationRef = None,
      timers = Map.empty,
      nextTimer = 1,
      interval = None\<rparr>"

definition clearInterval :: "nat \<Rightarrow> AppState \<Rightarrow> AppState" where
  "clearInterval h s = s\<lparr>timers := (timers s)(h := None)\<rparr>"

text \<open>
  \<open>toggleTracking\<close>. \<open>hasGeolocation\<close> is \<open>'geolocation' in navigator\<close>; with it the
  position is requested and one of the two callbacks below runs later.
\<close>

definition toggleTracking :: "bool \<Rightarrow> AppState \<Rightarrow> AppState" where
  "toggleTracking hasGeolocation s =
     (if isTracking s then
        let s1 = s\<lparr>isTracking := False, userLocation := None, userLocationIsNew := False\<rparr>
        in (case simulationRef s1 of
              None \<Rightarrow> s1
            | Some h \<Rightarrow> if h \<noteq> 0 then clearInterval h s1 else s1)
      else if hasGeolocation then s\<lparr>isTracking := True\<rparr>
      else s\<lparr>isTracking := True,
             userLocation := Some MOCK_USER_START_LOCATION, userLocationIsNew := False\<rparr>)"

definition positionSuccess :: "Coordinates \<Rightarrow> AppState \<Rightarrow> AppState" where
  "positionSuccess coords s =
     s\<lparr>userLocation := Some \<lparr>latitude = latitude coords, longitude = longitude coords\<rparr>,
       userLocationIsNew := True\<rparr>"

definition positionError :: "AppState \<Rightarrow> AppState" where
  "positionError s =
     s\<lparr>userLocation := Some MOCK_USER_START_LOCATION, userLocationIsNew := False\<rparr>"

text \<open>
  The simulation effect, \<open>useEffect(..., [isTracking, userLocation])\<close>. Its body sets an
  interval only while tracking with a user location, and returns the cleanup that clears
  that interval. When a dependency has changed, React runs the cleanup of the previous
  run and then the body.
\<close>

definition simulationEffect :: "AppState \<Rightarrow> AppState" where
  "simulationEffect s =
     (if \<not> isTracking s then s\<lparr>interval := None\<rparr>
      else
        (case userLocation s of
           None \<Rightarrow> s\<lparr>interval := None\<rparr>
         | Some u \<Rightarrow>
             s\<lparr>timers := (timers s)(nextTimer s \<mapsto> u),
               interval := Some (nextTimer s),
               nextTimer := Suc (nextTimer s)\<rparr>))"

definition simulationCleanup :: "AppState \<Rightarrow> AppState" where
  "simulationCleanup s =
     (case interval s of
        None \<Rightarrow> s
      | Some h \<Rightarrow> (clearInterval h s)\<lparr>interval := None\<rparr>)"

definition rerunSimulationEffect :: "AppState \<Rightarrow> AppState" where
  "rerunSimulationEffect s = simulationEffect (simulationCleanup s)"

text \<open>
  The interval with handle \<open>h\<close> fires: its callback runs only while the interval is
  live, with the user location it captured, and stores both results of the tick.
\<close>

definition intervalFire :: "distance_fn \<Rightarrow> nat \<Rightarrow> rng \<Rightarrow> AppState \<Rightarrow> AppState" where
  "intervalFire calc h g s =
     (case timers s h of
        None \<Rightarrow> s
      | Some u \<Rightarrow>
          let ((moved, nearby), g') = simulationTick calc u (allContacts s) g
          in s\<lparr>allContacts := moved, nearbyContacts := nearby\<rparr>)"

text \<open>
  \<open>handleAddContact\<close>. \<open>dateNow\<close> is the value of \<open>Date.now()\<close> and \<open>newDate\<close>
  the time value of \<open>new Date()\<close>; the two draws of \<open>g\<close> place the contact.
\<close>

definition handleAddContact :: "int \<Rightarrow> Date \<Rightarrow> rng \<Rightarrow> AppState \<Rightarrow> AppState" where
  "handleAddContact dateNow newDate g s =
     (if trim (newContactName s) = [] \<or> trim (newContactPhone s) = [] then s
      else
        let (r1, g1) = Math_random g;
            (r2, g2) = Math_random g1;
            newContact =
              \<lparr>contact_id = toString dateNow,
               name = newContactName s,
               phoneNumber = newContactPhone s,
               avatarUrl = ''https://ui-avatars.com/api/?name=''
                 @ encodeURIComponent (newContactName s) @ ''&background=random'',
               location =
                 \<lparr>latitude =
                    double (latitude MOCK_USER_START_LOCATION
                            + double (double (r1 - 0.5) * double 0.04)),
                  longitude =
                    double (longitude MOCK_USER_START_LOCATION
                            + double (double (r2 - 0.5) * double 0.04))\<rparr>,
               isRegistered = True,
               lastSeen = newDate\<rparr>
        in s\<lparr>allContacts := allContacts s @ [newContact],
             newContactName := [],
             newContactPhone := [],
             isAddingContact := False\<rparr>)"

text \<open>
  The events of the page and the state after each. Handlers run one at a time; after a
  handler React renders and, when \<open>isTracking\<close> or the object in \<open>userLocation\<close> has
  changed, re-runs the simulation effect, before the next event is handled. A geolocation
  callback is accepted at any time, also when no request is pending, and an interval
  event for any handle, live or not.
\<close>

datatype Event =
    ToggleTracking bool
  | PositionSuccess Coordinates
  | PositionError
  | IntervalFire nat rng
  | SetNewContactName string
  | SetNewContactPhone string
  | ToggleAddingContact
  | AddContact int Date rng

fun step :: "distance_fn \<Rightarrow> Event \<Rightarrow> AppState \<Rightarrow> AppState" where
  "step calc (ToggleTracking hasGeolocation) s =
     rerunSimulationEffect (toggleTracking hasGeolocation s)"
| "step calc (PositionSuccess coords) s = rerunSimulationEffect (positionSuccess coords s)"
| "step calc PositionError s =
     (if userLocation s \<noteq> None \<and> \<not> userLocationIsNew s then positionError s
      else rerunSimulationEffect (positionError s))"
| "step calc (IntervalFire h g) s = intervalFire calc h g s"
| "step calc (SetNewContactName v) s = s\<lparr>newContactName := v\<rparr>"
| "step calc (SetNewContactPhone v) s = s\<lparr>newContactPhone := v\<rparr>"
| "step calc ToggleAddingContact s = s\<lparr>isAddingContact := \<not> isAddingContact s\<rparr>"
| "step calc (AddContact dateNow newDate g) s = handleAddContact dateNow newDate g s"

fun run :: "distance_fn \<Rightarrow> Event list \<Rightarrow> AppState \<Rightarrow> AppState" where
  "run calc [] s = s"
| "run calc (e # es) s = run calc es (step calc e s)"

text \<open>Kinds of events, for statements about traces.\<close>

fun isToggleTracking :: "Event \<Rightarrow> bool" where
  "isToggleTracking (ToggleTracking hasGeolocation) = True"
| "isToggleTracking e = False"

fun isIntervalFire :: "Event \<Rightarrow> bool" where
  "isIntervalFire (IntervalFire h g) = True"
| "isIntervalFire e = False"

section \<open>Distance utility\<close>

text \<open>
  Modelled from the spec: \<open>calculateDistanceKm\<close> of \<open>services/locationService\<close> is
  not among the source files. The spec describes it as the great-circle distance in
  kilometres by a standard spherical-earth approximation (haversine or equivalent), rounded
  or truncated to a fixed small number of decimal places. The model is the haversine
  formula on a sphere of radius \<open>earthRadiusKm\<close>, followed by rounding to the nearest, or
  truncation towards zero, at \<open>decimals\<close> places; the radius, the mode and the number of
  places are parameters, since the spec fixes none of them.
\<close>

datatype Rounding = Rounded | Truncated

definition deg2rad :: "real \<Rightarrow> real" where
  "deg2rad deg = deg * (pi / 180)"

definition haversineKm :: "real \<Rightarrow> Coordinates \<Rightarrow> Coordinates \<Rightarrow> real" where
  "haversineKm earthRadiusKm a b =
     (let dLat = deg2rad (latitude b - latitude a);
          dLon = deg2rad (longitude b - longitude a);
          h = sin (dLat / 2) * sin (dLat / 2)
              + cos (deg2rad (latitude a)) * cos (deg2rad (latitude b))
                * sin (dLon / 2) * sin (dLon / 2);
          c = 2 * Math_atan2 (sqrt h) (sqrt (1 - h))
      in earthRadiusKm * c)"

definition toDecimals :: "Rounding \<Rightarrow> nat \<Rightarrow> real \<Rightarrow> real" where
  "toDecimals mode decimals v =
     (let scaled = v * 10 ^ decimals
      in (case mode of
            Rounded \<Rightarrow> of_int (round scaled)
          | Truncated \<Rightarrow> of_int (if 0 \<le> scaled then \<lfloor>scaled\<rfloor> else \<lceil>scaled\<rceil>))
         / 10 ^ decimals)"

definition calculateDistanceKm ::
  "real \<Rightarrow> Rounding \<Rightarrow> nat \<Rightarrow> Coordinates \<Rightarrow> Coordinates \<Rightarrow> real" where
  "calculateDistanceKm earthRadiusKm mode decimals a b =
     toDecimals mode decimals (haversineKm earthRadiusKm a b)"

section \<open>Properties of double rounding\<close>

lemma roundHalfEven_error: "\<bar>of_int (roundHalfEven y) - y\<bar> \<le> 1 / 2"
proof -
  have "of_int \<lfloor>y\<rfloor> \<le> y" "y < of_int \<lfloor>y\<rfloor> + 1" by linarith+
  then show ?thesis by (auto simp: roundHalfEven_def Let_def)
qed

lemma double_zero: "double 0 = 0"
  by (simp add: double_def)

lemma double_error: "\<bar>double v - v\<bar> \<le> \<bar>v\<bar> / 2 ^ 53"
proof (cases "v = 0")
  case True
  then show ?thesis by (simp add: double_def)
next
  case False
  define e where "e = \<lfloor>log 2 \<bar>v\<bar>\<rfloor>"
  define ulp :: real where "ulp = 2 powr (of_int e - 52)"
  have ulp_pos: "0 < ulp" by (simp add: ulp_def)
  have d: "double v = of_int (roundHalfEven (v / ulp)) * ulp"
    using False by (simp add: double_def e_def ulp_def Let_def)
  have "\<bar>double v - v\<bar> = \<bar>of_int (roundHalfEven (v / ulp)) - v / ulp\<bar> * ulp"
  proof -
    have "double v - v = (of_int (roundHalfEven (v / ulp)) - v / ulp) * ulp"
      using ulp_pos by (simp add: d left_diff_distrib)
    then show ?thesis using ulp_pos by (simp add: abs_mult)
  qed
  also have "\<dots> \<le> (1 / 2) * ulp"
    using ulp_pos roundHalfEven_error [of "v / ulp"] by (intro mult_right_mono) simp_all
  also have "\<dots> = 2 powr (of_int e) / 2 ^ 53"
  proof -
    have "(2::real) powr (of_int e - 52) = 2 powr (of_int e) / 2 powr 52"
      by (simp add: powr_diff)
    moreover have "(2::real) powr 52 = 2 ^ 52"
      by (simp add: powr_numeral)
    ultimately show ?thesis by (simp add: ulp_def)
  qed
  also have "\<dots> \<le> \<bar>v\<bar> / 2 ^ 53"
  proof -
    have "of_int e \<le> log 2 \<bar>v\<bar>" by (simp add: e_def)
    then have "2 powr (of_int e) \<le> 2 powr (log 2 \<bar>v\<bar>)" by simp
    also have "\<dots> = \<bar>v\<bar>" using False by simp
    finally show ?thesis by (simp add: divide_right_mono)
  qed
  finally show ?thesis .
qed

lemma double_eval:
  assumes lo: "2 ^ 52 \<le> \<bar>v\<bar> * 2 ^ k" and hi: "\<bar>v\<bar> * 2 ^ k < 2 ^ 53"
  shows "double v = of_int (roundHalfEven (v * 2 ^ k)) / 2 ^ k"
proof -
  have nz: "v \<noteq> 0" using lo by auto
  have pos: "0 < \<bar>v\<bar>" using nz by simp
  have p: "(2::real) powr (52 - of_nat k) = 2 ^ 52 / 2 ^ k"
    by (simp add: powr_diff powr_realpow powr_numeral)
  have p1: "(2::real) powr (52 - of_nat k + 1) = 2 ^ 53 / 2 ^ k"
    by (simp add: powr_diff powr_add powr_realpow powr_numeral)
  have "2 powr (52 - of_nat k) \<le> \<bar>v\<bar>"
    unfolding p using lo by (simp add: divide_le_eq)
  moreover have "\<bar>v\<bar> < 2 powr (52 - of_nat k + 1)"
    unfolding p1 using hi by (simp add: less_divide_eq)
  ultimately have "\<lfloor>log 2 \<bar>v\<bar>\<rfloor> = 52 - int k"
    using pos floor_log_eq_powr_iff [of "\<bar>v\<bar>" 2 "52 - int k"] by simp
  then have "(2::real) powr (of_int \<lfloor>log 2 \<bar>v\<bar>\<rfloor> - 52) = 2 powr (- of_nat k)"
    by simp
  also have "\<dots> = 1 / 2 ^ k"
    by (simp add: powr_minus powr_realpow divide_inverse)
  finally have "(2::real) powr (of_int \<lfloor>log 2 \<bar>v\<bar>\<rfloor> - 52) = 1 / 2 ^ k" .
  then show ?thesis using nz by (simp add: double_def Let_def)
qed

lemma roundHalfEven_examples:
  "roundHalfEven 2.5 = 2 \<and> roundHalfEven 3.5 = 4 \<and> roundHalfEven (- 2.5) = - 2 \<and>
   roundHalfEven (- 3.5) = - 4 \<and> roundHalfEven 2.4 = 2 \<and> roundHalfEven 2.6 = 3 \<and>
   roundHalfEven (- 0.4) = 0"
  by (simp add: roundHalfEven_def)

lemma double_examples:
  "double 1 = 1 \<and> double 0.1 = 3602879701896397 / 2 ^ 55 \<and>
   double (2 ^ 52 + 1 / 2) = 2 ^ 52 \<and> double (2 ^ 52 + 3 / 2) = 2 ^ 52 + 2 \<and>
   double (- (2 ^ 52 + 1 / 2)) = - (2 ^ 52)"
proof -
  have "double 1 = 1"
    by (subst double_eval [where k = 52]) (simp_all add: roundHalfEven_def)
  moreover have "double 0.1 = 3602879701896397 / 2 ^ 55"
    by (subst double_eval [where k = 56]) (simp_all add: roundHalfEven_def)
  moreover have "double (2 ^ 52 + 1 / 2) = 2 ^ 52"
    by (subst double_eval [where k = 0]) (simp_all add: roundHalfEven_def)
  moreover have "double (2 ^ 52 + 3 / 2) = 2 ^ 52 + 2"
    by (subst double_eval [where k = 0]) (simp_all add: roundHalfEven_def)
  moreover have "double (- (2 ^ 52 + 1 / 2)) = - (2 ^ 52)"
    by (subst double_eval [where k = 0]) (simp_all add: roundHalfEven_def)
  ultimately show ?thesis by simp
qed

section \<open>Properties of the random walk\<close>

lemma moveContact_unregistered:
  "\<not> isRegistered c \<Longrightarrow> fst (moveContact c g) = c"
  by (simp add: moveContact_def)

lemma moveContact_registered:
  "isRegistered c \<Longrightarrow>
     fst (moveContact c g) =
       c\<lparr>location :=
           \<lparr>latitude = double (latitude (location c) + double (double (g 0 - 0.5) * double 0.0005)),
            longitude = double (longitude (location c) + double (double (g 1 - 0.5) * double 0.0005))\<rparr>\<rparr>"
  by (simp add: moveContact_def Math_random_def)

lemma moveContacts_Cons:
  "fst (moveContacts (c # cs) g) =
     fst (moveContact c g) # fst (moveContacts cs (snd (moveContact c g)))"
  by (simp add: split_beta Let_def)

lemma snd_moveContact:
  "snd (moveContact c g) = (if isRegistered c then (\<lambda>n. g (Suc (Suc n))) else g)"
  by (simp add: moveContact_def Math_random_def)

text \<open>
  C2. One tick of the random walk returns a collection of the same length in which, position
  by position, an entity that is not registered is returned as it was, and a registered
  entity keeps its id, name, phone number, avatar, registration flag and last-seen time:
  it is the input entity with at most its location replaced.
\<close>

theorem moveContacts_frame:
  "list_all2
     (\<lambda>c c'. (\<not> isRegistered c \<longrightarrow> c' = c) \<and>
             (isRegistered c \<longrightarrow>
                contact_id c' = contact_id c \<and> name c' = name c \<and>
                phoneNumber c' = phoneNumber c \<and> avatarUrl c' = avatarUrl c \<and>
                isRegistered c' = isRegistered c \<and> lastSeen c' = lastSeen c \<and>
                c' = c\<lparr>location := location c'\<rparr>))
     cs (fst (moveContacts cs g))"
proof (induction cs arbitrary: g)
  case Nil
  show ?case by simp
next
  case (Cons c cs)
  have head: "(\<not> isRegistered c \<longrightarrow> fst (moveContact c g) = c) \<and>
        (isRegistered c \<longrightarrow>
           contact_id (fst (moveContact c g)) = contact_id c \<and>
           name (fst (moveContact c g)) = name c \<and>
           phoneNumber (fst (moveContact c g)) = phoneNumber c \<and>
           avatarUrl (fst (moveContact c g)) = avatarUrl c \<and>
           isRegistered (fst (moveContact c g)) = isRegistered c \<and>
           lastSeen (fst (moveContact c g)) = lastSeen c \<and>
           fst (moveContact c g) = c\<lparr>location := location (fst (moveContact c g))\<rparr>)"
    by (simp add: moveContact_unregistered moveContact_registered)
  show ?case
    unfolding moveContacts_Cons
    using head Cons.IH [of "snd (moveContact c g)"] by simp
qed

theorem moveContacts_frame_witness:
  "\<not> isRegistered (hd (map (\<lambda>c. c\<lparr>isRegistered := False\<rparr>) (INITIAL_CONTACTS 0) @ INITIAL_CONTACTS 0)) \<and>
   isRegistered (last (map (\<lambda>c. c\<lparr>isRegistered := False\<rparr>) (INITIAL_CONTACTS 0) @ INITIAL_CONTACTS 0)) \<and>
   list_all2
     (\<lambda>c c'. (\<not> isRegistered c \<longrightarrow> c' = c) \<and>
             (isRegistered c \<longrightarrow>
                contact_id c' = contact_id c \<and> name c' = name c \<and>
                phoneNumber c' = phoneNumber c \<and> avatarUrl c' = avatarUrl c \<and>
                isRegistered c' = isRegistered c \<and> lastSeen c' = lastSeen c \<and>
                c' = c\<lparr>location := location c'\<rparr>))
     (map (\<lambda>c. c\<lparr>isRegistered := False\<rparr>) (INITIAL_CONTACTS 0) @ INITIAL_CONTACTS 0)
     (fst (moveContacts
        (map (\<lambda>c. c\<lparr>isRegistered := False\<rparr>) (INITIAL_CONTACTS 0) @ INITIAL_CONTACTS 0)
        (\<lambda>n. 1 / 4)))"
proof -
  have "\<not> isRegistered (hd (map (\<lambda>c. c\<lparr>isRegistered := False\<rparr>) (INITIAL_CONTACTS 0) @ INITIAL_CONTACTS 0))"
    by (simp add: INITIAL_CONTACTS_def)
  moreover have "isRegistered (last (map (\<lambda>c. c\<lparr>isRegistered := False\<rparr>) (INITIAL_CONTACTS 0) @ INITIAL_CONTACTS 0))"
    by (simp add: INITIAL_CONTACTS_def)
  ultimately show ?thesis
    using moveContacts_frame
      [of "map (\<lambda>c. c\<lparr>isRegistered := False\<rparr>) (INITIAL_CONTACTS 0) @ INITIAL_CONTACTS 0" "\<lambda>n. 1 / 4"]
    by blast
qed

section \<open>Properties of the simulation tick\<close>

lemma moveContact_contact_id: "contact_id (fst (moveContact c g)) = contact_id c"
  by (simp add: moveContact_def Math_random_def)

lemma moveContacts_ids:
  "map contact_id (fst (moveContacts cs g)) = map contact_id cs"
proof (induction cs arbitrary: g)
  case Nil
  show ?case by simp
next
  case (Cons c cs)
  show ?case
    unfolding moveContacts_Cons
    by (simp add: moveContact_contact_id Cons.IH)
qed

lemma moveContact_isRegistered: "isRegistered (fst (moveContact c g)) = isRegistered c"
  by (simp add: moveContact_def Math_random_def)

lemma moveContacts_isRegistered:
  "map isRegistered (fst (moveContacts cs g)) = map isRegistered cs"
proof (induction cs arbitrary: g)
  case Nil
  show ?case by simp
next
  case (Cons c cs)
  show ?case
    unfolding moveContacts_Cons
    by (simp add: moveContact_isRegistered Cons.IH)
qed

lemma withDistance_fields:
  "contact_id (withDistance c d) = contact_id c \<and>
   distanceKm (withDistance c d) = d \<and>
   Contact.truncate (withDistance c d) = c"
  by (simp add: withDistance_def Contact.extend_def Contact.truncate_def NearbyContact.fields_def)

lemma foldl_checkDistance:
  "foldl (checkDistance calc u) acc cs =
     acc @ map (\<lambda>c. withDistance c (calc u (location c)))
             (filter (\<lambda>c. isRegistered c \<and> calc u (location c) \<le> RADAR_RADIUS_KM) cs)"
proof (induction cs arbitrary: acc)
  case Nil
  show ?case by simp
next
  case (Cons c cs)
  show ?case
    by (simp add: Cons.IH) (simp add: checkDistance_def Let_def)
qed

lemma simulationTick_moved:
  "fst (fst (simulationTick calc u prev g)) = fst (moveContacts prev g)"
  by (simp add: simulationTick_def split_beta Let_def)

lemma nearby_of_simulationTick:
  "snd (fst (simulationTick calc u prev g)) =
     map (\<lambda>c. withDistance c (calc u (location c)))
       (filter (\<lambda>c. isRegistered c \<and> calc u (location c) \<le> RADAR_RADIUS_KM)
          (fst (moveContacts prev g)))"
  by (simp add: simulationTick_def split_beta Let_def foldl_checkDistance)

text \<open>
  C1. For every distance function, user position, collection and outcome of the random
  draws, a tick stores the moved collection, and its nearby array lists, in the order of
  the moved collection, exactly the moved entities that are registered and whose computed
  distance to the user is at most \<open>RADAR_RADIUS_KM\<close> (a distance equal to the radius is
  kept): without their \<open>distanceKm\<close> the entries are these entities, field by field, and
  the \<open>distanceKm\<close> of each entry is the distance computed for it. The ids of the nearby
  array are a subsequence of the ids of the input collection.
\<close>

theorem simulationTick_nearby:
  "fst (fst (simulationTick calc u prev g)) = fst (moveContacts prev g) \<and>
   map Contact.truncate (snd (fst (simulationTick calc u prev g))) =
     filter (\<lambda>c. isRegistered c \<and> calc u (location c) \<le> RADAR_RADIUS_KM)
       (fst (moveContacts prev g)) \<and>
   map distanceKm (snd (fst (simulationTick calc u prev g))) =
     map (\<lambda>c. calc u (location c))
       (filter (\<lambda>c. isRegistered c \<and> calc u (location c) \<le> RADAR_RADIUS_KM)
          (fst (moveContacts prev g))) \<and>
   snd (fst (simulationTick calc u prev g)) =
     map (\<lambda>c. withDistance c (calc u (location c)))
       (filter (\<lambda>c. isRegistered c \<and> calc u (location c) \<le> RADAR_RADIUS_KM)
          (fst (moveContacts prev g))) \<and>
   subseq (map contact_id (snd (fst (simulationTick calc u prev g)))) (map contact_id prev)"
proof -
  have "subseq
      (map contact_id (filter (\<lambda>c. isRegistered c \<and> calc u (location c) \<le> RADAR_RADIUS_KM)
          (fst (moveContacts prev g))))
      (map contact_id (fst (moveContacts prev g)))"
    by (simp add: subseq_map)
  then have "subseq (map contact_id (snd (fst (simulationTick calc u prev g)))) (map contact_id prev)"
    by (simp add: nearby_of_simulationTick moveContacts_ids withDistance_fields comp_def)
  then show ?thesis
    by (simp add: simulationTick_moved nearby_of_simulationTick withDistance_fields comp_def)
qed

theorem simulationTick_nearby_witness:
  "map distanceKm (snd (fst (simulationTick (\<lambda>a b. 5) MOCK_USER_START_LOCATION
      (INITIAL_CONTACTS 0) (\<lambda>n. 1 / 2)))) = [5] \<and>
   map Contact.truncate (snd (fst (simulationTick (\<lambda>a b. 5) MOCK_USER_START_LOCATION
      (INITIAL_CONTACTS 0) (\<lambda>n. 1 / 2)))) =
     fst (moveContacts (INITIAL_CONTACTS 0) (\<lambda>n. 1 / 2)) \<and>
   map contact_id (snd (fst (simulationTick (\<lambda>a b. 5) MOCK_USER_START_LOCATION
      (INITIAL_CONTACTS 0) (\<lambda>n. 1 / 2)))) = [''1''] \<and>
   snd (fst (simulationTick (\<lambda>a b. 5.001) MOCK_USER_START_LOCATION
      (INITIAL_CONTACTS 0) (\<lambda>n. 1 / 2))) = []"
proof -
  have moved: "map isRegistered (fst (moveContacts (INITIAL_CONTACTS 0) (\<lambda>n. 1 / 2))) = [True] \<and>
      map contact_id (fst (moveContacts (INITIAL_CONTACTS 0) (\<lambda>n. 1 / 2))) = [''1'']"
    by (simp only: moveContacts_isRegistered moveContacts_ids) (simp add: INITIAL_CONTACTS_def)
  then obtain c where c: "fst (moveContacts (INITIAL_CONTACTS 0) (\<lambda>n. 1 / 2)) = [c]"
      and reg: "isRegistered c" and cid: "contact_id c = ''1''"
    by (cases "fst (moveContacts (INITIAL_CONTACTS 0) (\<lambda>n. 1 / 2))") auto
  show ?thesis
    using simulationTick_nearby
        [of "\<lambda>a b. 5" MOCK_USER_START_LOCATION "INITIAL_CONTACTS 0" "\<lambda>n. 1 / 2"]
      simulationTick_nearby
        [of "\<lambda>a b. 5.001" MOCK_USER_START_LOCATION "INITIAL_CONTACTS 0" "\<lambda>n. 1 / 2"]
    by (simp add: c reg cid RADAR_RADIUS_KM_def withDistance_fields)
qed

section \<open>Doubles of the random walk\<close>

lemma double_minus_half: "double (0 - 0.5) = - (1 / 2)"
proof -
  have "double (- (1 / 2)) = - (1 / 2)"
    by (subst double_eval [where k = 53]) (simp_all add: roundHalfEven_def)
  then show ?thesis by simp
qed

lemma double_0_0005: "double 0.0005 = 4611686018427388 / 2 ^ 63"
  by (subst double_eval [where k = 63]) (simp_all add: roundHalfEven_def)

lemma double_40_7145: "double 40.7145 = 5730056469643002 / 2 ^ 47"
  by (subst double_eval [where k = 47]) (simp_all add: roundHalfEven_def)

lemma latMove_draw_zero:
  "double (double (0 - 0.5) * double 0.0005) = - (4611686018427388 / 2 ^ 64)"
  unfolding double_minus_half double_0_0005
  by (subst double_eval [where k = 64]) (simp_all add: roundHalfEven_def)

lemma latitude_draw_zero:
  "double (double 40.7145 + double (double (0 - 0.5) * double 0.0005)) =
     5730021285270913 / 2 ^ 47"
  unfolding latMove_draw_zero double_40_7145
  by (subst double_eval [where k = 47]) (simp_all add: roundHalfEven_def)

lemma moveContacts_single: "fst (moveContacts [c] g) = [fst (moveContact c g)]"
  by (simp add: split_beta)

lemma moved_latitude_draw_zero:
  "map (\<lambda>c. latitude (location c)) (fst (moveContacts (INITIAL_CONTACTS 0) (\<lambda>n. 0))) =
     [double (double 40.7145 + double (double (0 - 0.5) * double 0.0005))]"
  by (simp only: INITIAL_CONTACTS_def moveContacts_single) (simp add: moveContact_registered)

text \<open>
  C3, as stated, fails in double arithmetic: with the draw 0 the offset is the double
  nearest to -0.00025, and adding it to the latitude of the initial contact rounds to a
  double that lies more than 0.00025 below that latitude.
\<close>

theorem moveContacts_rounding_counterexample:
  "map isRegistered (INITIAL_CONTACTS 0) = [True] \<and>
   map (\<lambda>c. latitude (location c)) (INITIAL_CONTACTS 0) = [5730056469643002 / 2 ^ 47] \<and>
   map (\<lambda>c. latitude (location c)) (fst (moveContacts (INITIAL_CONTACTS 0) (\<lambda>n. 0))) =
     [5730021285270913 / 2 ^ 47] \<and>
   \<not> \<bar>5730021285270913 / 2 ^ 47 - 5730056469643002 / 2 ^ 47\<bar> \<le> (0.00025 :: real)"
proof -
  have reg: "map isRegistered (INITIAL_CONTACTS 0) = [True]"
    by (simp add: INITIAL_CONTACTS_def)
  have "map (\<lambda>c. latitude (location c)) (INITIAL_CONTACTS 0) = [double 40.7145]"
    by (simp add: INITIAL_CONTACTS_def)
  then have old: "map (\<lambda>c. latitude (location c)) (INITIAL_CONTACTS 0) =
      [5730056469643002 / 2 ^ 47]"
    unfolding double_40_7145 .
  have new: "map (\<lambda>c. latitude (location c)) (fst (moveContacts (INITIAL_CONTACTS 0) (\<lambda>n. 0))) =
      [5730021285270913 / 2 ^ 47]"
    unfolding moved_latitude_draw_zero latitude_draw_zero ..
  have "\<not> \<bar>5730021285270913 / 2 ^ 47 - 5730056469643002 / 2 ^ 47\<bar> \<le> (0.00025 :: real)"
    by simp
  with reg old new show ?thesis by blast
qed

lemma double_abs_le: "\<bar>double v\<bar> \<le> \<bar>v\<bar> * (1 + 1 / 2 ^ 53)"
proof -
  have "\<bar>double v\<bar> \<le> \<bar>v\<bar> + \<bar>double v - v\<bar>" by linarith
  also have "\<dots> \<le> \<bar>v\<bar> + \<bar>v\<bar> / 2 ^ 53"
    using double_error [of v] by simp
  also have "\<dots> = \<bar>v\<bar> * (1 + 1 / 2 ^ 53)" by (simp add: distrib_left)
  finally show ?thesis .
qed

lemma centred_offset_bound:
  assumes "0 \<le> r" "r < 1" "0 \<le> s"
  shows "\<bar>double (double (r - 0.5) * double s)\<bar> \<le> s / 2 * (1 + 1 / 2 ^ 53) ^ 3"
proof -
  let ?u = "1 + 1 / (2::real) ^ 53"
  have u: "0 \<le> ?u" by simp
  have "\<bar>r - 0.5\<bar> \<le> 1 / 2" using assms(1,2) by linarith
  then have "\<bar>r - 0.5\<bar> * ?u \<le> 1 / 2 * ?u" using u by (rule mult_right_mono)
  with double_abs_le [of "r - 0.5"] have a: "\<bar>double (r - 0.5)\<bar> \<le> 1 / 2 * ?u" by linarith
  have c: "\<bar>double s\<bar> \<le> s * ?u" using double_abs_le [of s] assms(3) by simp
  have "\<bar>double (r - 0.5) * double s\<bar> = \<bar>double (r - 0.5)\<bar> * \<bar>double s\<bar>"
    by (rule abs_mult)
  also have "\<dots> \<le> (1 / 2 * ?u) * (s * ?u)"
    using a c by (intro mult_mono) simp_all
  finally have p: "\<bar>double (r - 0.5) * double s\<bar> \<le> (1 / 2 * ?u) * (s * ?u)" .
  then have "\<bar>double (r - 0.5) * double s\<bar> * ?u \<le> ((1 / 2 * ?u) * (s * ?u)) * ?u"
    using u by (rule mult_right_mono)
  with double_abs_le [of "double (r - 0.5) * double s"]
  have "\<bar>double (double (r - 0.5) * double s)\<bar> \<le> ((1 / 2 * ?u) * (s * ?u)) * ?u" by linarith
  also have "\<dots> = s / 2 * ?u ^ 3" by (simp add: power3_eq_cube)
  finally show ?thesis .
qed

lemma double_add_change:
  "\<bar>double (x + m) - x\<bar> \<le> \<bar>m\<bar> + (\<bar>x\<bar> + \<bar>m\<bar>) / 2 ^ 53"
proof -
  have "\<bar>x + m\<bar> / 2 ^ 53 \<le> (\<bar>x\<bar> + \<bar>m\<bar>) / 2 ^ 53"
    by (intro divide_right_mono) simp_all
  with double_error [of "x + m"] show ?thesis by linarith
qed

lemma moved_coordinate_bound:
  assumes "0 \<le> r" "r < 1" "\<bar>x\<bar> \<le> 180"
  shows "\<bar>double (x + double (double (r - 0.5) * double 0.0005)) - x\<bar> \<le> 0.00025 + 1 / 10 ^ 13"
proof -
  let ?m = "double (double (r - 0.5) * double 0.0005)"
  let ?b = "0.0005 / 2 * (1 + 1 / (2::real) ^ 53) ^ 3"
  have m: "\<bar>?m\<bar> \<le> ?b" using assms(1,2) by (intro centred_offset_bound) simp_all
  have "(\<bar>x\<bar> + \<bar>?m\<bar>) / 2 ^ 53 \<le> (180 + ?b) / 2 ^ 53"
    using m assms(3) by (intro divide_right_mono add_mono) simp_all
  with double_add_change [of x ?m] m
  have "\<bar>double (x + ?m) - x\<bar> \<le> ?b + (180 + ?b) / 2 ^ 53" by linarith
  also have "\<dots> \<le> 0.00025 + 1 / 10 ^ 13" by (simp add: power3_eq_cube)
  finally show ?thesis .
qed

lemma moveContact_bounded:
  assumes "0 \<le> g 0" "g 0 < 1" "0 \<le> g 1" "g 1 < 1" "isRegistered c"
  shows "(\<bar>latitude (location c)\<bar> \<le> 180 \<longrightarrow>
            \<bar>latitude (location (fst (moveContact c g))) - latitude (location c)\<bar>
              \<le> 0.00025 + 1 / 10 ^ 13) \<and>
         (\<bar>longitude (location c)\<bar> \<le> 180 \<longrightarrow>
            \<bar>longitude (location (fst (moveContact c g))) - longitude (location c)\<bar>
              \<le> 0.00025 + 1 / 10 ^ 13)"
  using moved_coordinate_bound [OF assms(1,2), of "latitude (location c)"]
    moved_coordinate_bound [OF assms(3,4), of "longitude (location c)"]
  by (simp add: moveContact_registered [OF assms(5)])

text \<open>
  C3, amended. When every draw lies in \<open>[0, 1)\<close>, a tick of the random walk changes the
  latitude of a registered entity whose latitude lies within 180 degrees of zero by at
  most 0.00025 degrees plus the rounding of the double arithmetic, which is less than
  \<open>1 / 10 ^ 13\<close> degrees; the same holds for the longitude. The change is therefore
  below the magnitude 0.0005.
\<close>

theorem moveContacts_bounded:
  assumes "\<forall>n. 0 \<le> g n \<and> g n < 1"
  shows "list_all2
     (\<lambda>c c'. isRegistered c \<longrightarrow>
        (\<bar>latitude (location c)\<bar> \<le> 180 \<longrightarrow>
           \<bar>latitude (location c') - latitude (location c)\<bar> \<le> 0.00025 + 1 / 10 ^ 13 \<and>
           \<bar>latitude (location c') - latitude (location c)\<bar> < 0.0005) \<and>
        (\<bar>longitude (location c)\<bar> \<le> 180 \<longrightarrow>
           \<bar>longitude (location c') - longitude (location c)\<bar> \<le> 0.00025 + 1 / 10 ^ 13 \<and>
           \<bar>longitude (location c') - longitude (location c)\<bar> < 0.0005))
     cs (fst (moveContacts cs g))"
  using assms
proof (induction cs arbitrary: g)
  case Nil
  show ?case by simp
next
  case (Cons c cs)
  have small: "(0.00025 :: real) + 1 / 10 ^ 13 < 0.0005" by simp
  have hd: "isRegistered c \<longrightarrow>
        (\<bar>latitude (location c)\<bar> \<le> 180 \<longrightarrow>
           \<bar>latitude (location (fst (moveContact c g))) - latitude (location c)\<bar>
             \<le> 0.00025 + 1 / 10 ^ 13 \<and>
           \<bar>latitude (location (fst (moveContact c g))) - latitude (location c)\<bar> < 0.0005) \<and>
        (\<bar>longitude (location c)\<bar> \<le> 180 \<longrightarrow>
           \<bar>longitude (location (fst (moveContact c g))) - longitude (location c)\<bar>
             \<le> 0.00025 + 1 / 10 ^ 13 \<and>
           \<bar>longitude (location (fst (moveContact c g))) - longitude (location c)\<bar> < 0.0005)"
  proof
    assume reg: "isRegistered c"
    have "0 \<le> g 0" "g 0 < 1" "0 \<le> g 1" "g 1 < 1" using Cons.prems by simp_all
    from moveContact_bounded [OF this reg] small show
      "(\<bar>latitude (location c)\<bar> \<le> 180 \<longrightarrow>
           \<bar>latitude (location (fst (moveContact c g))) - latitude (location c)\<bar>
             \<le> 0.00025 + 1 / 10 ^ 13 \<and>
           \<bar>latitude (location (fst (moveContact c g))) - latitude (location c)\<bar> < 0.0005) \<and>
        (\<bar>longitude (location c)\<bar> \<le> 180 \<longrightarrow>
           \<bar>longitude (location (fst (moveContact c g))) - longitude (location c)\<bar>
             \<le> 0.00025 + 1 / 10 ^ 13 \<and>
           \<bar>longitude (location (fst (moveContact c g))) - longitude (location c)\<bar> < 0.0005)"
      by linarith
  qed
  have "\<forall>n. 0 \<le> snd (moveContact c g) n \<and> snd (moveContact c g) n < 1"
    using Cons.prems by (simp add: snd_moveContact)
  then have tl: "list_all2
     (\<lambda>c c'. isRegistered c \<longrightarrow>
        (\<bar>latitude (location c)\<bar> \<le> 180 \<longrightarrow>
           \<bar>latitude (location c') - latitude (location c)\<bar> \<le> 0.00025 + 1 / 10 ^ 13 \<and>
           \<bar>latitude (location c') - latitude (location c)\<bar> < 0.0005) \<and>
        (\<bar>longitude (location c)\<bar> \<le> 180 \<longrightarrow>
           \<bar>longitude (location c') - longitude (location c)\<bar> \<le> 0.00025 + 1 / 10 ^ 13 \<and>
           \<bar>longitude (location c') - longitude (location c)\<bar> < 0.0005))
     cs (fst (moveContacts cs (snd (moveContact c g))))"
    by (rule Cons.IH)
  show ?case
    unfolding moveContacts_Cons list_all2_Cons
    using hd tl by blast
qed

theorem moveContacts_bounded_witness:
  "(\<forall>n::nat. (0::real) \<le> 0 \<and> (0::real) < 1) \<and>
   map isRegistered (INITIAL_CONTACTS 0) = [True] \<and>
   map (\<lambda>c. latitude (location c)) (INITIAL_CONTACTS 0) = [5730056469643002 / 2 ^ 47] \<and>
   \<bar>5730056469643002 / 2 ^ 47\<bar> \<le> (180 :: real) \<and>
   list_all2
     (\<lambda>c c'. isRegistered c \<longrightarrow>
        (\<bar>latitude (location c)\<bar> \<le> 180 \<longrightarrow>
           \<bar>latitude (location c') - latitude (location c)\<bar> \<le> 0.00025 + 1 / 10 ^ 13 \<and>
           \<bar>latitude (location c') - latitude (location c)\<bar> < 0.0005) \<and>
        (\<bar>longitude (location c)\<bar> \<le> 180 \<longrightarrow>
           \<bar>longitude (location c') - longitude (location c)\<bar> \<le> 0.00025 + 1 / 10 ^ 13 \<and>
           \<bar>longitude (location c') - longitude (location c)\<bar> < 0.0005))
     (INITIAL_CONTACTS 0) (fst (moveContacts (INITIAL_CONTACTS 0) (\<lambda>n. 0)))"
proof -
  have draws: "\<forall>n. (0::real) \<le> (\<lambda>n. 0) n \<and> (\<lambda>n. 0::real) n < 1" by simp
  have reg: "map isRegistered (INITIAL_CONTACTS 0) = [True]"
    by (simp add: INITIAL_CONTACTS_def)
  have "map (\<lambda>c. latitude (location c)) (INITIAL_CONTACTS 0) = [double 40.7145]"
    by (simp add: INITIAL_CONTACTS_def)
  then have old: "map (\<lambda>c. latitude (location c)) (INITIAL_CONTACTS 0) =
      [5730056469643002 / 2 ^ 47]"
    unfolding double_40_7145 .
  have range: "\<bar>5730056469643002 / 2 ^ 47\<bar> \<le> (180 :: real)" by simp
  from moveContacts_bounded [OF draws, of "INITIAL_CONTACTS 0"] reg old range
  show ?thesis by simp
qed

section \<open>Properties of the radar projection\<close>

lemma Math_atan2_axes:
  "Math_atan2 0 1 = 0 \<and> Math_atan2 1 0 = pi / 2 \<and> Math_atan2 0 (- 1) = pi \<and>
   Math_atan2 (- 1) 0 = - (pi / 2) \<and> Math_atan2 1 1 = pi / 4 \<and> Math_atan2 (- 1) (- 1) = - (3 * pi / 4)"
  by (simp add: Math_atan2_def arctan_one)











section \<open>Properties of the add-contact handler\<close>

lemma string_examples:
  "trim ''  a b  '' = ''a b'' \<and> trim '' '' = [] \<and>
   encodeURIComponent ''Al Bo/x'' = ''Al%20Bo%2Fx''"
  by (simp add: trim_def isWhiteSpace_def encodeURIComponent_def uriUnreserved_def
      percentEscape_def hexDigit_def)

lemma trim_empty_iff: "(trim s = []) = (\<forall>c \<in> set s. isWhiteSpace c)"
proof
  assume "trim s = []"
  then have "dropWhile isWhiteSpace (rev (dropWhile isWhiteSpace s)) = []"
    by (simp add: trim_def)
  then have a: "\<forall>c \<in> set (dropWhile isWhiteSpace s). isWhiteSpace c"
    by simp
  have "dropWhile isWhiteSpace s = []"
  proof (cases "dropWhile isWhiteSpace s")
    case Nil then show ?thesis .
  next
    case (Cons x xs)
    then have "\<not> isWhiteSpace x" using hd_dropWhile [of isWhiteSpace s] by simp
    moreover have "isWhiteSpace x" using a Cons by simp
    ultimately show ?thesis by simp
  qed
  then show "\<forall>c \<in> set s. isWhiteSpace c" by simp
next
  assume "\<forall>c \<in> set s. isWhiteSpace c"
  then have "dropWhile isWhiteSpace s = []" by simp
  then show "trim s = []" by (simp only: trim_def rev.simps dropWhile.simps)
qed

text \<open>
  C7. When the name of the add-contact form is empty or consists of white space only, or
  the phone number is, \<open>handleAddContact\<close> returns the state as it was: the contact
  collection is unchanged and nothing else is written, so no message is produced.
\<close>

theorem handleAddContact_rejects_blank:
  assumes "(\<forall>c \<in> set (newContactName s). isWhiteSpace c) \<or>
           (\<forall>c \<in> set (newContactPhone s). isWhiteSpace c)"
  shows "handleAddContact dateNow newDate g s = s \<and>
         step calc (AddContact dateNow newDate g) s = s \<and>
         allContacts (handleAddContact dateNow newDate g s) = allContacts s"
  using assms by (simp add: handleAddContact_def trim_empty_iff)

theorem handleAddContact_rejects_blank_witness:
  "handleAddContact 1700000000000 1700000000000 (\<lambda>n. 1 / 2)
     ((initialState 0)\<lparr>newContactName := [], newContactPhone := ''5551234''\<rparr>) =
     (initialState 0)\<lparr>newContactName := [], newContactPhone := ''5551234''\<rparr> \<and>
   handleAddContact 1700000000000 1700000000000 (\<lambda>n. 1 / 2)
     ((initialState 0)\<lparr>newContactName := ''Al'', newContactPhone := '' ''\<rparr>) =
     (initialState 0)\<lparr>newContactName := ''Al'', newContactPhone := '' ''\<rparr>"
proof -
  have blank1: "(\<forall>c \<in> set (newContactName ((initialState 0)\<lparr>newContactName := [], newContactPhone := ''5551234''\<rparr>)). isWhiteSpace c) \<or>
     (\<forall>c \<in> set (newContactPhone ((initialState 0)\<lparr>newContactName := [], newContactPhone := ''5551234''\<rparr>)). isWhiteSpace c)"
    by simp
  have blank2: "(\<forall>c \<in> set (newContactName ((initialState 0)\<lparr>newContactName := ''Al'', newContactPhone := '' ''\<rparr>)). isWhiteSpace c) \<or>
     (\<forall>c \<in> set (newContactPhone ((initialState 0)\<lparr>newContactName := ''Al'', newContactPhone := '' ''\<rparr>)). isWhiteSpace c)"
    by (simp add: isWhiteSpace_def)
  show ?thesis
    using handleAddContact_rejects_blank [OF blank1] handleAddContact_rejects_blank [OF blank2]
    by blast
qed

lemma handleAddContact_accepts:
  assumes "\<not> (\<forall>c \<in> set (newContactName s). isWhiteSpace c)"
      and "\<not> (\<forall>c \<in> set (newContactPhone s). isWhiteSpace c)"
  shows "allContacts (handleAddContact dateNow newDate g s) =
     allContacts s @
       [\<lparr>contact_id = toString dateNow,
         name = newContactName s,
         phoneNumber = newContactPhone s,
         avatarUrl = ''https://ui-avatars.com/api/?name=''
           @ encodeURIComponent (newContactName s) @ ''&background=random'',
         location =
           \<lparr>latitude =
              double (latitude MOCK_USER_START_LOCATION
                      + double (double (g 0 - 0.5) * double 0.04)),
            longitude =
              double (longitude MOCK_USER_START_LOCATION
                      + double (double (g 1 - 0.5) * double 0.04))\<rparr>,
         isRegistered = True,
         lastSeen = newDate\<rparr>]"
  using assms
  by (simp add: handleAddContact_def trim_empty_iff Math_random_def Let_def)

lemma double_40_7128: "double 40.7128 = 5729817215912798 / 2 ^ 47"
  by (subst double_eval [where k = 47]) (simp_all add: roundHalfEven_def)

lemma double_74_0060: "double (- 74.0060) = - (5207709281612202 / 2 ^ 46)"
  by (subst double_eval [where k = 46]) (simp_all add: roundHalfEven_def)

lemma double_0_04: "double 0.04 = 5764607523034235 / 2 ^ 57"
  by (subst double_eval [where k = 57]) (simp_all add: roundHalfEven_def)

lemma offset_draw_zero:
  "double (double (0 - 0.5) * double 0.04) = - (5764607523034235 / 2 ^ 58)"
  unfolding double_minus_half double_0_04
  by (subst double_eval [where k = 58]) (simp_all add: roundHalfEven_def)

lemma added_latitude_draw_zero:
  "double (double 40.7128 + double (double (0 - 0.5) * double 0.04)) =
     5727002466145691 / 2 ^ 47"
  unfolding offset_draw_zero double_40_7128
  by (subst double_eval [where k = 47]) (simp_all add: roundHalfEven_def)

lemma start_location_range:
  "\<bar>latitude MOCK_USER_START_LOCATION\<bar> \<le> 180 \<and> \<bar>longitude MOCK_USER_START_LOCATION\<bar> \<le> 180"
proof -
  have "latitude MOCK_USER_START_LOCATION = double 40.7128"
       "longitude MOCK_USER_START_LOCATION = double (- 74.0060)"
    by (simp_all add: MOCK_USER_START_LOCATION_def)
  then show ?thesis unfolding double_40_7128 double_74_0060 by simp
qed

lemma added_coordinate_bound:
  assumes "0 \<le> r" "r < 1" "\<bar>x\<bar> \<le> 180"
  shows "\<bar>double (x + double (double (r - 0.5) * double 0.04)) - x\<bar> \<le> 0.02 + 1 / 10 ^ 13"
proof -
  let ?m = "double (double (r - 0.5) * double 0.04)"
  let ?b = "0.04 / 2 * (1 + 1 / (2::real) ^ 53) ^ 3"
  have m: "\<bar>?m\<bar> \<le> ?b" using assms(1,2) by (intro centred_offset_bound) simp_all
  have "(\<bar>x\<bar> + \<bar>?m\<bar>) / 2 ^ 53 \<le> (180 + ?b) / 2 ^ 53"
    using m assms(3) by (intro divide_right_mono add_mono) simp_all
  with double_add_change [of x ?m] m
  have "\<bar>double (x + ?m) - x\<bar> \<le> ?b + (180 + ?b) / 2 ^ 53" by linarith
  also have "\<dots> \<le> 0.02 + 1 / 10 ^ 13" by (simp add: power3_eq_cube)
  finally show ?thesis .
qed

text \<open>
  C10, as stated, fails in double arithmetic: with the draw 0 the offset is the double
  nearest to -0.02, and adding it to the start latitude rounds to a double that lies more
  than 0.02 below the start latitude.
\<close>

theorem handleAddContact_rounding_counterexample:
  "latitude MOCK_USER_START_LOCATION = 5729817215912798 / 2 ^ 47 \<and>
   latitude (location (last (allContacts
      (handleAddContact 1700000000000 1700000000005 (\<lambda>n. 0)
         ((initialState 0)\<lparr>newContactName := ''Al'', newContactPhone := ''5551234''\<rparr>))))) =
     5727002466145691 / 2 ^ 47 \<and>
   \<not> \<bar>5727002466145691 / 2 ^ 47 - 5729817215912798 / 2 ^ 47\<bar> \<le> (0.02 :: real)"
proof -
  have n: "\<not> (\<forall>c \<in> set (newContactName ((initialState 0)\<lparr>newContactName := ''Al'', newContactPhone := ''5551234''\<rparr>)). isWhiteSpace c)"
    by (simp add: isWhiteSpace_def)
  have p: "\<not> (\<forall>c \<in> set (newContactPhone ((initialState 0)\<lparr>newContactName := ''Al'', newContactPhone := ''5551234''\<rparr>)). isWhiteSpace c)"
    by (simp add: isWhiteSpace_def)
  have "latitude MOCK_USER_START_LOCATION = double 40.7128"
    by (simp add: MOCK_USER_START_LOCATION_def)
  then have start: "latitude MOCK_USER_START_LOCATION = 5729817215912798 / 2 ^ 47"
    unfolding double_40_7128 .
  have "latitude (location (last (allContacts
      (handleAddContact 1700000000000 1700000000005 (\<lambda>n. 0)
         ((initialState 0)\<lparr>newContactName := ''Al'', newContactPhone := ''5551234''\<rparr>))))) =
     double (double 40.7128 + double (double (0 - 0.5) * double 0.04))"
    unfolding handleAddContact_accepts [OF n p]
    by (simp add: MOCK_USER_START_LOCATION_def)
  then have new: "latitude (location (last (allContacts
      (handleAddContact 1700000000000 1700000000005 (\<lambda>n. 0)
         ((initialState 0)\<lparr>newContactName := ''Al'', newContactPhone := ''5551234''\<rparr>))))) =
     5727002466145691 / 2 ^ 47"
    unfolding added_latitude_draw_zero .
  have "\<not> \<bar>5727002466145691 / 2 ^ 47 - 5729817215912798 / 2 ^ 47\<bar> \<le> (0.02 :: real)"
    by simp
  with start new show ?thesis by blast
qed

text \<open>
  C10, amended. When the name and the phone number both have a character that is not white
  space, and the draws lie in \<open>[0, 1)\<close>, \<open>handleAddContact\<close> leaves the contacts that
  were in the collection as they were and appends one contact at the end; the new contact
  is registered, its \<open>lastSeen\<close> is the clock value read at creation, and its latitude and
  longitude are within 0.02 degrees of \<open>MOCK_USER_START_LOCATION\<close> up to the rounding of
  the double arithmetic, which is less than \<open>1 / 10 ^ 13\<close> degrees.
\<close>

theorem handleAddContact_appends:
  assumes "\<not> (\<forall>c \<in> set (newContactName s). isWhiteSpace c)"
      and "\<not> (\<forall>c \<in> set (newContactPhone s). isWhiteSpace c)"
      and "\<forall>n. 0 \<le> g n \<and> g n < 1"
  shows "allContacts (handleAddContact dateNow newDate g s) =
           allContacts s @ [last (allContacts (handleAddContact dateNow newDate g s))] \<and>
         isRegistered (last (allContacts (handleAddContact dateNow newDate g s))) \<and>
         \<bar>latitude (location (last (allContacts (handleAddContact dateNow newDate g s))))
            - latitude MOCK_USER_START_LOCATION\<bar> \<le> 0.02 + 1 / 10 ^ 13 \<and>
         \<bar>longitude (location (last (allContacts (handleAddContact dateNow newDate g s))))
            - longitude MOCK_USER_START_LOCATION\<bar> \<le> 0.02 + 1 / 10 ^ 13 \<and>
         lastSeen (last (allContacts (handleAddContact dateNow newDate g s))) = newDate"
proof -
  have "0 \<le> g 0" "g 0 < 1" "0 \<le> g 1" "g 1 < 1" using assms(3) by simp_all
  then have
    "\<bar>double (latitude MOCK_USER_START_LOCATION + double (double (g 0 - 0.5) * double 0.04))
        - latitude MOCK_USER_START_LOCATION\<bar> \<le> 0.02 + 1 / 10 ^ 13"
    "\<bar>double (longitude MOCK_USER_START_LOCATION + double (double (g 1 - 0.5) * double 0.04))
        - longitude MOCK_USER_START_LOCATION\<bar> \<le> 0.02 + 1 / 10 ^ 13"
    using start_location_range by (intro added_coordinate_bound; simp)+
  then show ?thesis
    by (simp add: handleAddContact_accepts [OF assms(1,2)])
qed

theorem handleAddContact_appends_witness:
  "(\<forall>n::nat. (0::real) \<le> 0 \<and> (0::real) < 1) \<and>
   map name (allContacts (handleAddContact 1700000000000 1700000000005 (\<lambda>n. 0)
      ((initialState 0)\<lparr>newContactName := ''Al'', newContactPhone := ''5551234''\<rparr>))) = [''Yacob'', ''Al''] \<and>
   allContacts (handleAddContact 1700000000000 1700000000005 (\<lambda>n. 0)
      ((initialState 0)\<lparr>newContactName := ''Al'', newContactPhone := ''5551234''\<rparr>)) =
     INITIAL_CONTACTS 0 @
       [last (allContacts (handleAddContact 1700000000000 1700000000005 (\<lambda>n. 0)
          ((initialState 0)\<lparr>newContactName := ''Al'', newContactPhone := ''5551234''\<rparr>)))] \<and>
   isRegistered (last (allContacts (handleAddContact 1700000000000 1700000000005 (\<lambda>n. 0)
      ((initialState 0)\<lparr>newContactName := ''Al'', newContactPhone := ''5551234''\<rparr>)))) \<and>
   \<bar>latitude (location (last (allContacts (handleAddContact 1700000000000 1700000000005 (\<lambda>n. 0)
      ((initialState 0)\<lparr>newContactName := ''Al'', newContactPhone := ''5551234''\<rparr>))))) - latitude MOCK_USER_START_LOCATION\<bar> \<le> 0.02 + 1 / 10 ^ 13 \<and>
   lastSeen (last (allContacts (handleAddContact 1700000000000 1700000000005 (\<lambda>n. 0)
      ((initialState 0)\<lparr>newContactName := ''Al'', newContactPhone := ''5551234''\<rparr>)))) = 1700000000005"
proof -
  have n: "\<not> (\<forall>c \<in> set (newContactName ((initialState 0)\<lparr>newContactName := ''Al'', newContactPhone := ''5551234''\<rparr>)). isWhiteSpace c)"
    by (simp add: isWhiteSpace_def)
  have p: "\<not> (\<forall>c \<in> set (newContactPhone ((initialState 0)\<lparr>newContactName := ''Al'', newContactPhone := ''5551234''\<rparr>)). isWhiteSpace c)"
    by (simp add: isWhiteSpace_def)
  have draws: "\<forall>n. (0::real) \<le> (\<lambda>n. 0) n \<and> (\<lambda>n. 0::real) n < 1" by simp
  have old: "allContacts ((initialState 0)\<lparr>newContactName := ''Al'', newContactPhone := ''5551234''\<rparr>) = INITIAL_CONTACTS 0"
    by (simp add: initialState_def)
  have names: "map name (allContacts (handleAddContact 1700000000000 1700000000005 (\<lambda>n. 0)
      ((initialState 0)\<lparr>newContactName := ''Al'', newContactPhone := ''5551234''\<rparr>))) = [''Yacob'', ''Al'']"
    unfolding handleAddContact_accepts [OF n p]
    by (simp add: initialState_def INITIAL_CONTACTS_def)
  from handleAddContact_appends [OF n p draws, of 1700000000000 1700000000005] names
  show ?thesis unfolding old by simp
qed

section \<open>Handlers that keep the contact collection\<close>

lemma allContacts_rerunSimulationEffect:
  "allContacts (rerunSimulationEffect s) = allContacts s"
  by (simp add: rerunSimulationEffect_def simulationEffect_def simulationCleanup_def
      clearInterval_def split: option.splits)

lemma allContacts_toggleTracking:
  "allContacts (toggleTracking hasGeolocation s) = allContacts s"
  by (simp add: toggleTracking_def clearInterval_def Let_def split: option.splits)

lemma allContacts_positionSuccess:
  "allContacts (positionSuccess coords s) = allContacts s"
  by (simp add: positionSuccess_def)

lemma allContacts_positionError:
  "allContacts (positionError s) = allContacts s"
  by (simp add: positionError_def)

lemma allContacts_intervalFire:
  "allContacts (intervalFire calc h g s) =
     (case timers s h of None \<Rightarrow> allContacts s | Some u \<Rightarrow> fst (moveContacts (allContacts s) g))"
  by (simp add: intervalFire_def simulationTick_def split_beta Let_def split: option.splits)

section \<open>Contact ids\<close>

lemma toString_examples:
  "toString 1700000000000 = ''1700000000000'' \<and> toString 0 = ''0'' \<and> toString (- 42) = ''-42''"
  by (simp add: toString_def digits.simps)

text \<open>
  C9. The ids of the contacts are not pairwise distinct in every reachable state: the id of
  a new contact is the decimal string of \<open>Date.now()\<close> and nothing compares it with the
  ids in the collection, so that two contacts added at the same clock value get the same
  id. The trace below adds two contacts at the clock value 1700000000000.
\<close>

theorem contact_ids_same_timestamp:
  "map contact_id (allContacts (run (\<lambda>a b. 0)
       [SetNewContactName ''Al'', SetNewContactPhone ''5551234'',
        AddContact 1700000000000 1700000000000 (\<lambda>n. 1 / 2),
        SetNewContactName ''Bo'', SetNewContactPhone ''5559876'',
        AddContact 1700000000000 1700000000000 (\<lambda>n. 1 / 2)]
       (initialState 0))) = [''1'', ''1700000000000'', ''1700000000000''] \<and>
   map name (allContacts (run (\<lambda>a b. 0)
       [SetNewContactName ''Al'', SetNewContactPhone ''5551234'',
        AddContact 1700000000000 1700000000000 (\<lambda>n. 1 / 2),
        SetNewContactName ''Bo'', SetNewContactPhone ''5559876'',
        AddContact 1700000000000 1700000000000 (\<lambda>n. 1 / 2)]
       (initialState 0))) = [''Yacob'', ''Al'', ''Bo''] \<and>
   \<not> distinct (map contact_id (allContacts (run (\<lambda>a b. 0)
       [SetNewContactName ''Al'', SetNewContactPhone ''5551234'',
        AddContact 1700000000000 1700000000000 (\<lambda>n. 1 / 2),
        SetNewContactName ''Bo'', SetNewContactPhone ''5559876'',
        AddContact 1700000000000 1700000000000 (\<lambda>n. 1 / 2)]
       (initialState 0))))"
  by (simp add: initialState_def INITIAL_CONTACTS_def handleAddContact_def trim_def
      isWhiteSpace_def Math_random_def Let_def toString_def digits.simps)

section \<open>Stopping the simulation\<close>

lemma clear_only_timer:
  "dom m = {h} \<Longrightarrow> m(h := None) = Map.empty"
  by (auto simp: fun_eq_iff dom_def)

lemma simulationCleanup_timers:
  assumes "dom (timers s) = set_option (interval s)"
  shows "timers (simulationCleanup s) = Map.empty \<and> interval (simulationCleanup s) = None"
proof (cases "interval s")
  case None
  then show ?thesis using assms by (simp add: simulationCleanup_def)
next
  case (Some h)
  then have "dom (timers s) = {h}" using assms by simp
  then have "(timers s)(h := None) = Map.empty" by (rule clear_only_timer)
  then show ?thesis using Some by (simp add: simulationCleanup_def clearInterval_def)
qed

lemma simulationEffect_timers:
  assumes "timers s = Map.empty"
  shows "dom (timers (simulationEffect s)) = set_option (interval (simulationEffect s))"
  using assms by (simp add: simulationEffect_def split: option.splits)

lemma rerunSimulationEffect_timers:
  assumes "dom (timers s) = set_option (interval s)"
  shows "dom (timers (rerunSimulationEffect s)) = set_option (interval (rerunSimulationEffect s))"
  unfolding rerunSimulationEffect_def
  using simulationCleanup_timers [OF assms] by (intro simulationEffect_timers) simp

lemma rerunSimulationEffect_frame:
  "simulationRef (rerunSimulationEffect s) = simulationRef s \<and>
   isTracking (rerunSimulationEffect s) = isTracking s \<and>
   userLocation (rerunSimulationEffect s) = userLocation s"
  by (simp add: rerunSimulationEffect_def simulationEffect_def simulationCleanup_def
      clearInterval_def split: option.splits)

lemma step_timers:
  assumes "simulationRef s = None" and "dom (timers s) = set_option (interval s)"
  shows "simulationRef (step calc e s) = None \<and>
         dom (timers (step calc e s)) = set_option (interval (step calc e s))"
proof (cases e)
  case (ToggleTracking hasGeolocation)
  have "dom (timers (toggleTracking hasGeolocation s)) = set_option (interval (toggleTracking hasGeolocation s))"
    using assms by (simp add: toggleTracking_def Let_def)
  moreover have "simulationRef (toggleTracking hasGeolocation s) = None"
    using assms by (simp add: toggleTracking_def Let_def)
  ultimately show ?thesis
    using ToggleTracking by (simp add: rerunSimulationEffect_timers rerunSimulationEffect_frame)
next
  case (PositionSuccess coords)
  have "dom (timers (positionSuccess coords s)) = set_option (interval (positionSuccess coords s))"
    using assms by (simp add: positionSuccess_def)
  then show ?thesis
    using PositionSuccess assms(1)
    by (simp add: rerunSimulationEffect_timers rerunSimulationEffect_frame positionSuccess_def)
next
  case PositionError
  have "dom (timers (positionError s)) = set_option (interval (positionError s))"
    using assms by (simp add: positionError_def)
  then show ?thesis
    using PositionError assms(1)
    by (simp add: rerunSimulationEffect_timers rerunSimulationEffect_frame positionError_def)
next
  case (IntervalFire h g)
  then show ?thesis
    using assms by (simp add: intervalFire_def split_beta Let_def split: option.splits)
next
  case (AddContact dateNow newDate g)
  then show ?thesis
    using assms by (simp add: handleAddContact_def split_beta Let_def)
qed (use assms in simp_all)

lemma run_timers:
  "simulationRef s = None \<Longrightarrow> dom (timers s) = set_option (interval s) \<Longrightarrow>
     simulationRef (run calc es s) = None \<and>
     dom (timers (run calc es s)) = set_option (interval (run calc es s))"
proof (induction es arbitrary: s)
  case Nil
  then show ?case by simp
next
  case (Cons e es)
  from step_timers [OF Cons.prems, of calc e] Cons.IH [of "step calc e s"]
  show ?case by simp
qed

lemma reachable_timers:
  "simulationRef (run calc es (initialState loadTime)) = None \<and>
   dom (timers (run calc es (initialState loadTime))) =
     set_option (interval (run calc es (initialState loadTime)))"
  by (rule run_timers) (simp_all add: initialState_def)

lemma toggle_off:
  assumes "simulationRef s = None" and "dom (timers s) = set_option (interval s)"
      and "isTracking s"
  shows "\<not> isTracking (step calc (ToggleTracking hasGeolocation) s) \<and>
         userLocation (step calc (ToggleTracking hasGeolocation) s) = None \<and>
         timers (step calc (ToggleTracking hasGeolocation) s) = Map.empty \<and>
         interval (step calc (ToggleTracking hasGeolocation) s) = None"
proof -
  have "timers (step calc (ToggleTracking hasGeolocation) s) = Map.empty"
  proof (cases "interval s")
    case None
    then have "dom (timers s) = {}" using assms(2) by simp
    then show ?thesis
      using assms(1,3) None
      by (simp add: toggleTracking_def rerunSimulationEffect_def simulationEffect_def
          simulationCleanup_def Let_def)
  next
    case (Some h)
    then have "dom (timers s) = {h}" using assms(2) by simp
    then have "(timers s)(h := None) = Map.empty"
      by (rule clear_only_timer)
    then show ?thesis
      using assms(1,3) Some
      by (simp add: toggleTracking_def rerunSimulationEffect_def simulationEffect_def
          simulationCleanup_def clearInterval_def Let_def)
  qed
  then show ?thesis
    using assms(1,3)
    by (simp add: toggleTracking_def rerunSimulationEffect_def simulationEffect_def
        simulationCleanup_def clearInterval_def Let_def split: option.splits)
qed

lemma stopped_step:
  assumes "\<not> isTracking s" and "timers s = Map.empty" and "interval s = None"
      and "\<not> isToggleTracking e"
  shows "\<not> isTracking (step calc e s) \<and> timers (step calc e s) = Map.empty \<and>
         interval (step calc e s) = None \<and>
         (isIntervalFire e \<longrightarrow> step calc e s = s)"
  using assms
  by (cases e)
     (simp_all add: rerunSimulationEffect_def simulationEffect_def simulationCleanup_def
        positionSuccess_def positionError_def intervalFire_def handleAddContact_def
        split_beta Let_def)

lemma stopped_run:
  "\<not> isTracking s \<Longrightarrow> timers s = Map.empty \<Longrightarrow> interval s = None \<Longrightarrow>
   list_all (\<lambda>e. \<not> isToggleTracking e) later \<Longrightarrow>
     run calc later s = run calc (filter (\<lambda>e. \<not> isIntervalFire e) later) s \<and>
     \<not> isTracking (run calc later s) \<and> timers (run calc later s) = Map.empty"
proof (induction later arbitrary: s)
  case Nil
  then show ?case by simp
next
  case (Cons e later)
  from Cons.prems have e: "\<not> isToggleTracking e" and rest: "list_all (\<lambda>e. \<not> isToggleTracking e) later"
    by simp_all
  note st = stopped_step [OF Cons.prems(1-3) e, of calc]
  from st rest have IH: "run calc later (step calc e s) =
        run calc (filter (\<lambda>e. \<not> isIntervalFire e) later) (step calc e s) \<and>
     \<not> isTracking (run calc later (step calc e s)) \<and>
     timers (run calc later (step calc e s)) = Map.empty"
    by (intro Cons.IH) simp_all
  show ?case
  proof (cases "isIntervalFire e")
    case True
    with st have "step calc e s = s" by simp
    with IH True show ?thesis by auto
  next
    case False
    with IH show ?thesis by auto
  qed
qed

text \<open>
  C6. In every state reached from the initial state in which tracking is on, toggling
  tracking off clears the user location and leaves no live interval. From then on, as long
  as tracking is not toggled again, no interval is live and interval events change
  nothing: the state after any later events is the state after the same events with the
  interval events removed. This holds also for the handle of the interval that was live
  when tracking stopped.
\<close>

theorem stop_tracking_stops_simulation:
  assumes "isTracking (run calc es (initialState loadTime))"
      and "list_all (\<lambda>e. \<not> isToggleTracking e) later"
  shows "userLocation (step calc (ToggleTracking hasGeolocation) (run calc es (initialState loadTime))) = None \<and>
         \<not> isTracking (step calc (ToggleTracking hasGeolocation) (run calc es (initialState loadTime))) \<and>
         timers (step calc (ToggleTracking hasGeolocation) (run calc es (initialState loadTime))) = Map.empty \<and>
         run calc later (step calc (ToggleTracking hasGeolocation) (run calc es (initialState loadTime))) =
           run calc (filter (\<lambda>e. \<not> isIntervalFire e) later)
             (step calc (ToggleTracking hasGeolocation) (run calc es (initialState loadTime))) \<and>
         timers (run calc later
             (step calc (ToggleTracking hasGeolocation) (run calc es (initialState loadTime)))) = Map.empty"
proof -
  note inv = reachable_timers [of calc es loadTime]
  note off = toggle_off [OF conjunct1 [OF inv] conjunct2 [OF inv] assms(1), of calc hasGeolocation]
  from off have a: "\<not> isTracking (step calc (ToggleTracking hasGeolocation) (run calc es (initialState loadTime)))"
    and b: "timers (step calc (ToggleTracking hasGeolocation) (run calc es (initialState loadTime))) = Map.empty"
    and c: "interval (step calc (ToggleTracking hasGeolocation) (run calc es (initialState loadTime))) = None"
    by simp_all
  from stopped_run [OF a b c assms(2), of calc] off show ?thesis by blast
qed

theorem stop_tracking_stops_simulation_witness:
  "isTracking (run (\<lambda>a b. 0) [ToggleTracking False] (initialState 0)) \<and>
   timers (run (\<lambda>a b. 0) [ToggleTracking False] (initialState 0)) 1 = Some MOCK_USER_START_LOCATION \<and>
   allContacts (run (\<lambda>a b. 0) [ToggleTracking False, IntervalFire 1 (\<lambda>n. 0)] (initialState 0))
     \<noteq> INITIAL_CONTACTS 0 \<and>
   list_all (\<lambda>e. \<not> isToggleTracking e)
     [IntervalFire 1 (\<lambda>n. 0), PositionSuccess MOCK_USER_START_LOCATION, IntervalFire 1 (\<lambda>n. 0),
      IntervalFire 2 (\<lambda>n. 0)] \<and>
   userLocation (step (\<lambda>a b. 0) (ToggleTracking True)
      (run (\<lambda>a b. 0) [ToggleTracking False] (initialState 0))) = None \<and>
   timers (step (\<lambda>a b. 0) (ToggleTracking True)
      (run (\<lambda>a b. 0) [ToggleTracking False] (initialState 0))) = Map.empty \<and>
   run (\<lambda>a b. 0)
     [IntervalFire 1 (\<lambda>n. 0), PositionSuccess MOCK_USER_START_LOCATION, IntervalFire 1 (\<lambda>n. 0),
      IntervalFire 2 (\<lambda>n. 0)]
     (step (\<lambda>a b. 0) (ToggleTracking True)
        (run (\<lambda>a b. 0) [ToggleTracking False] (initialState 0))) =
   run (\<lambda>a b. 0) [PositionSuccess MOCK_USER_START_LOCATION]
     (step (\<lambda>a b. 0) (ToggleTracking True)
        (run (\<lambda>a b. 0) [ToggleTracking False] (initialState 0))) \<and>
   allContacts (run (\<lambda>a b. 0)
     [IntervalFire 1 (\<lambda>n. 0), PositionSuccess MOCK_USER_START_LOCATION, IntervalFire 1 (\<lambda>n. 0),
      IntervalFire 2 (\<lambda>n. 0)]
     (step (\<lambda>a b. 0) (ToggleTracking True)
        (run (\<lambda>a b. 0) [ToggleTracking False] (initialState 0)))) = INITIAL_CONTACTS 0"
proof -
  have tracking: "isTracking (run (\<lambda>a b. 0) [ToggleTracking False] (initialState 0))"
    by (simp add: initialState_def toggleTracking_def rerunSimulationEffect_def
        simulationEffect_def simulationCleanup_def)
  have live: "timers (run (\<lambda>a b. 0) [ToggleTracking False] (initialState 0)) 1 =
      Some MOCK_USER_START_LOCATION"
    by (simp add: initialState_def toggleTracking_def rerunSimulationEffect_def
        simulationEffect_def simulationCleanup_def)
  have ticked: "allContacts (run (\<lambda>a b. 0) [ToggleTracking False, IntervalFire 1 (\<lambda>n. 0)] (initialState 0))
     = fst (moveContacts (INITIAL_CONTACTS 0) (\<lambda>n. 0))"
  proof -
    have st: "run (\<lambda>a b. 0) [ToggleTracking False, IntervalFire 1 (\<lambda>n. 0)] (initialState 0) =
        intervalFire (\<lambda>a b. 0) 1 (\<lambda>n. 0) (run (\<lambda>a b. 0) [ToggleTracking False] (initialState 0))"
      by simp
    have ac: "allContacts (run (\<lambda>a b. 0) [ToggleTracking False] (initialState 0)) =
        INITIAL_CONTACTS 0"
      by (simp add: allContacts_rerunSimulationEffect allContacts_toggleTracking initialState_def)
    show ?thesis
      unfolding st allContacts_intervalFire live ac by simp
  qed
  have "map (\<lambda>c. latitude (location c)) (INITIAL_CONTACTS 0) = [double 40.7145]"
    by (simp add: INITIAL_CONTACTS_def)
  then have before: "map (\<lambda>c. latitude (location c)) (INITIAL_CONTACTS 0) =
      [5730056469643002 / 2 ^ 47]"
    unfolding double_40_7145 .
  have after: "map (\<lambda>c. latitude (location c)) (fst (moveContacts (INITIAL_CONTACTS 0) (\<lambda>n. 0))) =
      [5730021285270913 / 2 ^ 47]"
    unfolding moved_latitude_draw_zero latitude_draw_zero ..
  have "map (\<lambda>c. latitude (location c)) (INITIAL_CONTACTS 0) \<noteq>
      map (\<lambda>c. latitude (location c)) (fst (moveContacts (INITIAL_CONTACTS 0) (\<lambda>n. 0)))"
    unfolding before after by simp
  then have moves: "allContacts (run (\<lambda>a b. 0) [ToggleTracking False, IntervalFire 1 (\<lambda>n. 0)] (initialState 0))
     \<noteq> INITIAL_CONTACTS 0"
    unfolding ticked by auto
  have later: "list_all (\<lambda>e. \<not> isToggleTracking e)
     [IntervalFire 1 (\<lambda>n. 0), PositionSuccess MOCK_USER_START_LOCATION, IntervalFire 1 (\<lambda>n. 0),
      IntervalFire 2 (\<lambda>n. 0)]"
    by simp
  note stop = stop_tracking_stops_simulation [OF tracking later, of True]
  have filtered: "filter (\<lambda>e. \<not> isIntervalFire e)
     [IntervalFire 1 (\<lambda>n. 0), PositionSuccess MOCK_USER_START_LOCATION, IntervalFire 1 (\<lambda>n. 0),
      IntervalFire 2 (\<lambda>n. 0)] = [PositionSuccess MOCK_USER_START_LOCATION]"
    by simp
  have same: "allContacts (run (\<lambda>a b. 0) [PositionSuccess MOCK_USER_START_LOCATION]
     (step (\<lambda>a b. 0) (ToggleTracking True)
        (run (\<lambda>a b. 0) [ToggleTracking False] (initialState 0)))) = INITIAL_CONTACTS 0"
    by (simp add: initialState_def allContacts_rerunSimulationEffect allContacts_toggleTracking
        allContacts_positionSuccess)
  from stop [unfolded filtered] same tracking live moves later show ?thesis
    by (simp only: simp_thms)
qed

section \<open>Properties of the distance utility\<close>

lemma deg2rad_swap: "deg2rad (x - y) = - deg2rad (y - x)"
proof -
  have "x - y = - (y - x)" by simp
  then have "deg2rad (x - y) = (- (y - x)) * (pi / 180)" by (simp only: deg2rad_def)
  also have "\<dots> = - ((y - x) * (pi / 180))" by (rule mult_minus_left)
  finally show ?thesis by (simp only: deg2rad_def)
qed

lemma sin_half_swap:
  "sin (deg2rad (x - y) / 2) * sin (deg2rad (x - y) / 2) =
   sin (deg2rad (y - x) / 2) * sin (deg2rad (y - x) / 2)"
  by (simp add: deg2rad_swap [of x y])

lemma haversineKm_sym: "haversineKm r a b = haversineKm r b a"
proof -
  have lat: "sin (deg2rad (latitude b - latitude a) / 2) * sin (deg2rad (latitude b - latitude a) / 2) =
      sin (deg2rad (latitude a - latitude b) / 2) * sin (deg2rad (latitude a - latitude b) / 2)"
    by (rule sin_half_swap)
  have lon: "sin (deg2rad (longitude b - longitude a) / 2) * sin (deg2rad (longitude b - longitude a) / 2) =
      sin (deg2rad (longitude a - longitude b) / 2) * sin (deg2rad (longitude a - longitude b) / 2)"
    by (rule sin_half_swap)
  have "sin (deg2rad (latitude b - latitude a) / 2) * sin (deg2rad (latitude b - latitude a) / 2)
        + cos (deg2rad (latitude a)) * cos (deg2rad (latitude b))
          * sin (deg2rad (longitude b - longitude a) / 2) * sin (deg2rad (longitude b - longitude a) / 2)
      = sin (deg2rad (latitude a - latitude b) / 2) * sin (deg2rad (latitude a - latitude b) / 2)
        + cos (deg2rad (latitude b)) * cos (deg2rad (latitude a))
          * sin (deg2rad (longitude a - longitude b) / 2) * sin (deg2rad (longitude a - longitude b) / 2)"
    using lat lon by (simp add: mult.assoc mult.left_commute mult.commute)
  then show ?thesis
    by (simp only: haversineKm_def Let_def)
qed

lemma haversineKm_self: "haversineKm r a a = 0"
  by (simp add: haversineKm_def deg2rad_def Math_atan2_def)

lemma toDecimals_zero: "toDecimals mode decimals 0 = 0"
  by (cases mode) (simp_all add: toDecimals_def)

text \<open>
  C8. For every radius, rounding mode and number of decimal places, the distance utility is
  symmetric, \<open>distance(A, B) = distance(B, A)\<close>, and \<open>distance(A, A) = 0\<close>.
\<close>

theorem calculateDistanceKm_symmetric_zero:
  "calculateDistanceKm r mode decimals a b = calculateDistanceKm r mode decimals b a \<and>
   calculateDistanceKm r mode decimals a a = 0"
  by (simp add: calculateDistanceKm_def haversineKm_sym [of r a b] haversineKm_self toDecimals_zero)

end
